theory Spec2Isabelle
  imports Main "HOL-Library.Word"
begin

section \<open>Values of the host language\<close>

text \<open>
  The connector of \<^verbatim>\<open>src/ApiServiceConnector.ts\<close> handles untyped JavaScript values:
  request configurations, responses and rejection reasons (\<^verbatim>\<open>catch (error: any)\<close>).
  They are modelled by value. An object is the list of its own enumerable properties,
  none of them a function; the value of a property is the first entry under its name.
  \<open>JError m\<close> is an instance made by \<^verbatim>\<open>new Error(m)\<close>. Numbers are restricted to the
  integers from \<open>- 2 ^ 53\<close> to \<open>2 ^ 53 - 1\<close>, which a double holds exactly and which
  print as plain decimals; the program does no arithmetic, so they are kept as 54-bit
  values and read signed. A string is the list of its UTF-16 code units; every character
  of the messages of this program is below 256, so one \<open>char\<close> each.
\<close>

datatype jsval =
    JUndefined
  | JNull
  | JBool bool
  | JNum "54 word"
  | JStr string
  | JObj "(string \<times> jsval) list"
  | JError string

text \<open>
  What a computation of the connector ends with when it does not return: a value thrown
  by a \<^verbatim>\<open>throw\<close> statement (or a rejection reason passed on), or the TypeError that the
  runtime raises when a property of \<^verbatim>\<open>undefined\<close> or \<^verbatim>\<open>null\<close> is read. The text of
  that TypeError depends on the engine and is not modelled.
\<close>

datatype exn = Throw jsval | TypeError

text \<open>Truthiness, as used by \<^verbatim>\<open>||\<close>, \<^verbatim>\<open>&&\<close> and \<^verbatim>\<open>if\<close>.\<close>

fun truthy :: "jsval \<Rightarrow> bool" where
  "truthy JUndefined = False"
| "truthy JNull = False"
| "truthy (JBool b) = b"
| "truthy (JNum n) = (n \<noteq> 0)"
| "truthy (JStr s) = (s \<noteq> [])"
| "truthy (JObj fs) = True"
| "truthy (JError m) = True"

text \<open>
  Reading a property of \<^verbatim>\<open>undefined\<close> or \<^verbatim>\<open>null\<close> raises the TypeError; every read
  below is guarded by this test.
\<close>

definition nullish :: "jsval \<Rightarrow> bool" where
  "nullish v = (v = JUndefined \<or> v = JNull)"

text \<open>
  Reading a property \<^verbatim>\<open>v.k\<close> of a value that is not nullish: a missing property
  reads as \<^verbatim>\<open>undefined\<close>. Of an Error instance only \<^verbatim>\<open>message\<close> is read by this
  program; of a primitive, nothing it has.
\<close>

fun field_of :: "jsval \<Rightarrow> string \<Rightarrow> jsval" where
  "field_of (JObj fs) k = (case map_of fs k of Some v \<Rightarrow> v | None \<Rightarrow> JUndefined)"
| "field_of (JError m) k = (if k = ''message'' then JStr m else JUndefined)"
| "field_of v k = JUndefined"

text \<open>Decimal rendering of a number.\<close>

fun string_of_nat :: "nat \<Rightarrow> string" where
  "string_of_nat n =
     (if n < 10 then [char_of (48 + n)]
      else string_of_nat (n div 10) @ [char_of (48 + n mod 10)])"

definition string_of_int :: "int \<Rightarrow> string" where
  "string_of_int i = (if i < 0 then CHR ''-'' # string_of_nat (nat (- i)) else string_of_nat (nat i))"

text \<open>
  The string conversion of a template literal \<^verbatim>\<open>`${v}`\<close>. A plain object inherits
  \<^verbatim>\<open>Object.prototype.toString\<close>, unless it has a property \<^verbatim>\<open>toString\<close> of its own: that
  one is not a function, \<^verbatim>\<open>valueOf\<close> does not give a primitive either, and the
  conversion raises a TypeError (\<open>None\<close>). An Error instance renders as its name and
  message.
\<close>

fun js_String :: "jsval \<Rightarrow> string option" where
  "js_String JUndefined = Some ''undefined''"
| "js_String JNull = Some ''null''"
| "js_String (JBool b) = Some (if b then ''true'' else ''false'')"
| "js_String (JNum n) = Some (string_of_int (sint n))"
| "js_String (JStr s) = Some s"
| "js_String (JObj fs) =
     (if map_of fs ''toString'' = None then Some ''[object Object]'' else None)"
| "js_String (JError m) = Some (if m = [] then ''Error'' else ''Error: '' @ m)"

section \<open>Data model\<close>

text \<open>\<^verbatim>\<open>types/ApiServiceConnectorTypes.ts\<close>: \<^verbatim>\<open>ClientProtocol\<close>.\<close>

datatype ClientProtocol = REST | GraphQL | Generic

fun protocol_name :: "ClientProtocol \<Rightarrow> string" where
  "protocol_name REST = ''REST''"
| "protocol_name GraphQL = ''GraphQL''"
| "protocol_name Generic = ''Generic''"

text \<open>
  Mutable clients are objects on the heap and are named by their address. What a
  transport resolves or rejects with is \<open>Inr\<close> a value or \<open>Inl\<close> a reason.
\<close>

type_synonym axios_ref = nat
type_synonym apollo_ref = nat
type_synonym conn_ref = nat
type_synonym obj_ref = nat
type_synonym settled = "jsval + jsval"

text \<open>
  A headers object is a mapping from names to values. Under a name there is a value
  that nobody writes into (a string, say, or what came as a value with a call), or an
  object nested in the headers, such as \<^verbatim>\<open>common\<close> of axios: an object that can be
  written into is held by reference, so that a copy of the headers made by
  \<^verbatim>\<open>{ ...headers }\<close> shares it with the original. The order of the properties is not
  part of the model.
\<close>

datatype header_value = Plain jsval | Shared obj_ref

type_synonym headers = "string \<rightharpoonup> header_value"

text \<open>
  An adapter (\<^verbatim>\<open>ApiRequestFormat = RESTAdapter | GraphQLAdapter | GenericAdapter\<close>): the
  name of its runtime constructor and, for each property the connector looks at, whether
  the object has it (\<open>None\<close>: \<^verbatim>\<open>'k' in adapter\<close> is false). The connector never writes to
  an adapter, so adapters are values; their clients are references.
\<close>

record adapter =
  constructor_name :: string
  axiosInstance :: "axios_ref option"
  apolloClient :: "apollo_ref option"
  client :: "jsval option"
  executeRequest :: "(jsval \<Rightarrow> settled) option"

text \<open>The two fields of the class, both \<^verbatim>\<open>readonly\<close>.\<close>

record ApiServiceConnector =
  adapterClient :: adapter
  protocolType :: ClientProtocol

text \<open>
  The state the program reads and writes: the static \<^verbatim>\<open>connectorRegistry\<close> (a
  \<^verbatim>\<open>Map\<close> from key to connector object), the connector objects allocated so far (the
  address of a connector is its index), \<^verbatim>\<open>defaults.headers\<close> of every axios instance
  (each instance has a headers object of its own), and the objects nested in headers.
\<close>

record world =
  connectorRegistry :: "string \<rightharpoonup> conn_ref"
  connectors :: "ApiServiceConnector list"
  defaults_headers :: "axios_ref \<Rightarrow> headers"
  objects :: "obj_ref \<Rightarrow> headers"

definition deref :: "world \<Rightarrow> conn_ref \<Rightarrow> ApiServiceConnector option" where
  "deref w r = (if r < length (connectors w) then Some (connectors w ! r) else None)"

section \<open>Protocol detection and the factory\<close>

text \<open>\<^verbatim>\<open>PROTOCOL_DETECTORS\<close>, in the order \<^verbatim>\<open>Object.entries\<close> lists it.\<close>

definition PROTOCOL_DETECTORS :: "(ClientProtocol \<times> (adapter \<Rightarrow> bool)) list" where
  "PROTOCOL_DETECTORS =
     [(REST, \<lambda>a. axiosInstance a \<noteq> None),
      (GraphQL, \<lambda>a. apolloClient a \<noteq> None),
      (Generic, \<lambda>a. client a \<noteq> None \<and> executeRequest a \<noteq> None)]"

text \<open>\<^verbatim>\<open>Object.entries(PROTOCOL_DETECTORS).find(([_, detector]) => detector(adapter))?.[0]\<close>\<close>

definition detect_protocol :: "adapter \<Rightarrow> ClientProtocol option" where
  "detect_protocol a = map_option fst (find (\<lambda>(_, detector). detector a) PROTOCOL_DETECTORS)"

definition unrecognized_adapter_message :: string where
  "unrecognized_adapter_message =
     ''Tipo de adaptador n'' @ [CHR 0xE3] @ ''o reconhecido. Nenhum detector de protocolo correspondente.''"

text \<open>\<^verbatim>\<open>`${adapter.constructor.name}:${protocol}`\<close>\<close>

definition registryKey :: "adapter \<Rightarrow> ClientProtocol \<Rightarrow> string" where
  "registryKey a p = constructor_name a @ '':'' @ protocol_name p"

text \<open>
  \<^verbatim>\<open>createOrRetrieve\<close>. The \<^verbatim>\<open>has\<close> / \<^verbatim>\<open>set\<close> / \<^verbatim>\<open>get\<close> sequence on the registry is
  one lookup: a missing key allocates a connector at the next free address, stores that
  address under the key and returns it; a present key returns what is stored.
\<close>

definition createOrRetrieve :: "world \<Rightarrow> adapter \<Rightarrow> (exn + conn_ref) \<times> world" where
  "createOrRetrieve w a =
     (case detect_protocol a of
        None \<Rightarrow> (Inl (Throw (JError unrecognized_adapter_message)), w)
      | Some protocol \<Rightarrow>
          (let key = registryKey a protocol in
           case connectorRegistry w key of
             None \<Rightarrow>
               (Inr (length (connectors w)),
                w\<lparr>connectorRegistry := (connectorRegistry w)(key \<mapsto> length (connectors w)),
                  connectors := connectors w @ [\<lparr>adapterClient = a, protocolType = protocol\<rparr>]\<rparr>)
           | Some r \<Rightarrow> (Inr r, w)))"

section \<open>Operations of a connector\<close>

definition token_rest_only_message :: string where
  "token_rest_only_message =
     ''Autentica'' @ [CHR 0xE7, CHR 0xE3] @ ''o via token dispon'' @ [CHR 0xED]
       @ ''vel apenas para clientes REST''"

definition no_graphql_client_message :: string where
  "no_graphql_client_message =
     ''Cliente GraphQL n'' @ [CHR 0xE3] @ ''o dispon'' @ [CHR 0xED] @ ''vel neste conector''"

definition unsupported_protocol_prefix :: string where
  "unsupported_protocol_prefix = ''Protocolo n'' @ [CHR 0xE3] @ ''o suportado: ''"

definition http_failure_prefix :: string where
  "http_failure_prefix = ''Falha na requisi'' @ [CHR 0xE7, CHR 0xE3] @ ''o HTTP: ''"

definition graphql_failure_prefix :: string where
  "graphql_failure_prefix = ''Falha na opera'' @ [CHR 0xE7, CHR 0xE3] @ ''o GraphQL: ''"

definition generic_failure_prefix :: string where
  "generic_failure_prefix =
     ''Falha na opera'' @ [CHR 0xE7, CHR 0xE3] @ ''o gen'' @ [CHR 0xE9] @ ''rica: ''"

text \<open>
  \<^verbatim>\<open>applyAuthenticationToken\<close>. A REST connector whose adapter has no
  \<^verbatim>\<open>axiosInstance\<close> reads \<^verbatim>\<open>undefined.defaults\<close>.
\<close>

definition applyAuthenticationToken ::
    "world \<Rightarrow> ApiServiceConnector \<Rightarrow> string \<Rightarrow> (exn + unit) \<times> world" where
  "applyAuthenticationToken w this accessToken =
     (if protocolType this \<noteq> REST then (Inl (Throw (JError token_rest_only_message)), w)
      else case axiosInstance (adapterClient this) of
             None \<Rightarrow> (Inl TypeError, w)
           | Some ax \<Rightarrow>
               (Inr (),
                w\<lparr>defaults_headers := (defaults_headers w)
                     (ax := (defaults_headers w ax)
                              (''authorization'' \<mapsto> Plain (JStr (''Bearer '' @ accessToken))))\<rparr>))"

text \<open>\<^verbatim>\<open>getGraphQLClient\<close>; \<open>Inr None\<close> is the value \<^verbatim>\<open>undefined\<close>.\<close>

definition getGraphQLClient :: "ApiServiceConnector \<Rightarrow> exn + apollo_ref option" where
  "getGraphQLClient this =
     (if protocolType this \<noteq> GraphQL then Inl (Throw (JError no_graphql_client_message))
      else Inr (apolloClient (adapterClient this)))"

section \<open>The three execution strategies\<close>

text \<open>
  The external collaborators. \<^verbatim>\<open>axiosInstance.request\<close> is given the default
  headers of its instance and the nested objects as they are when it is called, and
  gives how it settles and what it leaves of both (the transport and its interceptors
  may write to them); \<^verbatim>\<open>apolloClient.query\<close>; and the \<^verbatim>\<open>gql\<close> tag, which returns a
  document or throws.
\<close>

record env =
  axios_request ::
    "axios_ref \<Rightarrow> headers \<Rightarrow> (obj_ref \<Rightarrow> headers) \<Rightarrow> jsval
       \<Rightarrow> settled \<times> headers \<times> (obj_ref \<Rightarrow> headers)"
  apollo_query :: "apollo_ref \<Rightarrow> jsval \<Rightarrow> settled"
  gql :: "string \<Rightarrow> jsval + jsval"

text \<open>
  On top of \<open>exn\<close>, an asynchronous operation can end with the Error that a \<^verbatim>\<open>catch\<close>
  block builds from a caught TypeError of the runtime: its message is the given prefix
  followed by the engine's text.
\<close>

datatype rejection = Rejected exn | Rejected_wrapped_TypeError string

type_synonym promise = "rejection + jsval"

text \<open>
  \<^verbatim>\<open>Object.assign(target, source)\<close>: the own enumerable properties of the source
  written over the target. A string has its code units under their indices; other
  primitives and Error instances have none. What is copied out of a configuration is a
  value of the call.
\<close>

fun own_enumerable :: "jsval \<Rightarrow> (string \<times> jsval) list" where
  "own_enumerable (JObj fs) = fs"
| "own_enumerable (JStr s) = zip (map string_of_nat [0..<length s]) (map (\<lambda>c. JStr [c]) s)"
| "own_enumerable v = []"

definition Object_assign :: "headers \<Rightarrow> jsval \<Rightarrow> headers" where
  "Object_assign target source =
     target ++ map_of (map (\<lambda>(k, v). (k, Plain v)) (own_enumerable source))"

text \<open>\<^verbatim>\<open>`${error.message || error}`\<close>; \<open>None\<close> when the conversion raises.\<close>

definition error_text :: "jsval \<Rightarrow> string option" where
  "error_text error =
     js_String (if truthy (field_of error ''message'') then field_of error ''message'' else error)"

text \<open>
  \<^verbatim>\<open>throw new Error(`<prefix>${error.message || error}`)\<close>; reading \<^verbatim>\<open>message\<close> of a
  nullish reason, or a conversion that raises, ends in a TypeError instead.
\<close>

definition wrap_error :: "string \<Rightarrow> jsval \<Rightarrow> rejection" where
  "wrap_error prefix error =
     (if nullish error then Rejected TypeError
      else case error_text error of
             None \<Rightarrow> Rejected TypeError
           | Some text \<Rightarrow> Rejected (Throw (JError (prefix @ text))))"

text \<open>The \<^verbatim>\<open>catch\<close> block of \<^verbatim>\<open>executeHttpRequest\<close>.\<close>

definition http_catch :: "jsval \<Rightarrow> promise" where
  "http_catch error =
     (if nullish error then Inl (Rejected TypeError)
      else if truthy (field_of error ''isAxiosError'') \<and> truthy (field_of error ''response'')
        then Inr (field_of error ''response'')
      else Inl (wrap_error http_failure_prefix error))"

text \<open>\<^verbatim>\<open>if (headers) { Object.assign(axiosInstance.defaults.headers, headers); }\<close>\<close>

definition merge_call_headers :: "headers \<Rightarrow> jsval \<Rightarrow> headers" where
  "merge_call_headers defaults headers =
     (if truthy headers then Object_assign defaults headers else defaults)"

text \<open>The argument \<^verbatim>\<open>{ url, method, data, params }\<close> of the transport.\<close>

definition axios_request_config :: "jsval \<Rightarrow> jsval" where
  "axios_request_config config =
     JObj [(''url'', field_of config ''url''), (''method'', field_of config ''method''),
           (''data'', field_of config ''data''), (''params'', field_of config ''params'')]"

text \<open>
  \<^verbatim>\<open>executeHttpRequest\<close>. The parameter pattern reads the properties of the
  configuration. The snapshot \<^verbatim>\<open>{ ...axiosInstance.defaults.headers }\<close> is a copy of the
  mapping: the nested objects are not copied. \<^verbatim>\<open>finally\<close> makes the copy the default
  headers on every path out of \<^verbatim>\<open>try\<close> and \<^verbatim>\<open>catch\<close>; the nested objects stay as the
  call left them.
\<close>

definition executeHttpRequest :: "env \<Rightarrow> world \<Rightarrow> adapter \<Rightarrow> jsval \<Rightarrow> promise \<times> world" where
  "executeHttpRequest e w adapter config =
     (if nullish config then (Inl (Rejected TypeError), w)
      else case axiosInstance adapter of
             None \<Rightarrow> (Inl (Rejected TypeError), w)
           | Some ax \<Rightarrow>
               (let originalHeaders = defaults_headers w ax;
                    w1 = w\<lparr>defaults_headers := (defaults_headers w)
                           (ax := merge_call_headers (defaults_headers w ax) (field_of config ''headers''))\<rparr>;
                    (settled, left, nested) =
                       axios_request e ax (defaults_headers w1 ax) (objects w1)
                         (axios_request_config config);
                    w2 = w1\<lparr>defaults_headers := (defaults_headers w1)(ax := left),
                            objects := nested\<rparr>;
                    outcome = (case settled of
                                 Inr response \<Rightarrow> Inr response
                               | Inl error \<Rightarrow> http_catch error)
                in (outcome, w2\<lparr>defaults_headers := (defaults_headers w2)(ax := originalHeaders)\<rparr>)))"

text \<open>
  The template \<^verbatim>\<open>gql`\n            ${query}\n          `\<close> around a raw query: a line
  break and twelve spaces before it, a line break and ten spaces after it.
\<close>

definition gql_template :: "string \<Rightarrow> string" where
  "gql_template query =
     CHR 0x0A # replicate 12 CHR '' '' @ query @ CHR 0x0A # replicate 10 CHR '' ''"

text \<open>The argument \<^verbatim>\<open>{ query, variables, context: headers ? { headers } : undefined }\<close>
  of the GraphQL client.\<close>

definition apollo_query_options :: "jsval \<Rightarrow> jsval \<Rightarrow> jsval" where
  "apollo_query_options gqlOperation config =
     JObj [(''query'', gqlOperation),
           (''variables'', field_of config ''variables''),
           (''context'',
              if truthy (field_of config ''headers'')
              then JObj [(''headers'', field_of config ''headers'')]
              else JUndefined)]"

definition response_envelope :: "jsval \<Rightarrow> jsval" where
  "response_envelope data =
     JObj [(''data'', data), (''status'', JNum 200), (''statusText'', JStr ''OK''),
           (''headers'', JObj []), (''config'', JObj [])]"

text \<open>
  The body of \<^verbatim>\<open>try\<close> in \<^verbatim>\<open>executeGraphQLOperation\<close>, and its \<^verbatim>\<open>catch\<close>: calling
  \<^verbatim>\<open>query\<close> on a missing client and taking \<^verbatim>\<open>data\<close> out of a nullish result are
  TypeErrors raised inside \<^verbatim>\<open>try\<close>.
\<close>

definition graphql_try :: "env \<Rightarrow> adapter \<Rightarrow> jsval \<Rightarrow> jsval \<Rightarrow> promise" where
  "graphql_try e adapter gqlOperation config =
     (case apolloClient adapter of
        None \<Rightarrow> Inl (Rejected_wrapped_TypeError graphql_failure_prefix)
      | Some ap \<Rightarrow>
          (case apollo_query e ap (apollo_query_options gqlOperation config) of
             Inr result \<Rightarrow>
               if nullish result then Inl (Rejected_wrapped_TypeError graphql_failure_prefix)
               else Inr (response_envelope (field_of result ''data''))
           | Inl error \<Rightarrow> Inl (wrap_error graphql_failure_prefix error)))"

text \<open>
  \<^verbatim>\<open>executeGraphQLOperation\<close>. A raw string goes through \<^verbatim>\<open>gql\<close> before \<^verbatim>\<open>try\<close> is
  entered, so what \<^verbatim>\<open>gql\<close> throws is passed on as it is.
\<close>

definition executeGraphQLOperation :: "env \<Rightarrow> adapter \<Rightarrow> jsval \<Rightarrow> promise" where
  "executeGraphQLOperation e adapter config =
     (if nullish config then Inl (Rejected TypeError)
      else case field_of config ''query'' of
             JStr query \<Rightarrow>
               (case gql e (gql_template query) of
                  Inl error \<Rightarrow> Inl (Rejected (Throw error))
                | Inr document \<Rightarrow> graphql_try e adapter document config)
           | query \<Rightarrow> graphql_try e adapter query config)"

text \<open>
  \<^verbatim>\<open>executeGenericOperation\<close>; calling a missing \<^verbatim>\<open>executeRequest\<close> is a TypeError
  raised inside \<^verbatim>\<open>try\<close>.
\<close>

definition executeGenericOperation :: "adapter \<Rightarrow> jsval \<Rightarrow> promise" where
  "executeGenericOperation adapter config =
     (case executeRequest adapter of
        None \<Rightarrow> Inl (Rejected_wrapped_TypeError generic_failure_prefix)
      | Some f \<Rightarrow>
          (case f config of
             Inr response \<Rightarrow> Inr response
           | Inl error \<Rightarrow> Inl (wrap_error generic_failure_prefix error)))"

text \<open>\<^verbatim>\<open>request\<close>: the dispatch on the protocol of the connector.\<close>

definition request :: "env \<Rightarrow> world \<Rightarrow> ApiServiceConnector \<Rightarrow> jsval \<Rightarrow> promise \<times> world" where
  "request e w this config =
     (if protocolType this = REST then executeHttpRequest e w (adapterClient this) config
      else if protocolType this = GraphQL
        then (executeGraphQLOperation e (adapterClient this) config, w)
      else if protocolType this = Generic
        then (executeGenericOperation (adapterClient this) config, w)
      else (Inl (Rejected (Throw (JError
              (unsupported_protocol_prefix @ protocol_name (protocolType this))))), w))"

section \<open>Sequences of calls\<close>

text \<open>
  What a client of the library can do, one call after another, with connectors named by
  address. A call on an address that holds no connector does nothing.
\<close>

datatype operation =
    CreateOrRetrieve adapter
  | ApplyAuthenticationToken conn_ref string
  | GetGraphQLClient conn_ref
  | Request conn_ref jsval

fun perform :: "env \<Rightarrow> world \<Rightarrow> operation \<Rightarrow> world" where
  "perform e w (CreateOrRetrieve a) = snd (createOrRetrieve w a)"
| "perform e w (ApplyAuthenticationToken r t) =
     (case deref w r of None \<Rightarrow> w | Some c \<Rightarrow> snd (applyAuthenticationToken w c t))"
| "perform e w (GetGraphQLClient r) = w"
| "perform e w (Request r config) =
     (case deref w r of None \<Rightarrow> w | Some c \<Rightarrow> snd (request e w c config))"

definition run :: "env \<Rightarrow> world \<Rightarrow> operation list \<Rightarrow> world" where
  "run e w ops = foldl (perform e) w ops"

section \<open>Example inputs\<close>

text \<open>Adapters written as object literals: their constructor is \<^verbatim>\<open>Object\<close>.\<close>

definition empty_world :: world where
  "empty_world =
     \<lparr>connectorRegistry = Map.empty, connectors = [],
      defaults_headers = (\<lambda>ax. Map.empty), objects = (\<lambda>r. Map.empty)\<rparr>"

definition rest_adapter :: "axios_ref \<Rightarrow> adapter" where
  "rest_adapter ax =
     \<lparr>constructor_name = ''Object'', axiosInstance = Some ax, apolloClient = None,
      client = None, executeRequest = None\<rparr>"

definition graphql_adapter :: "apollo_ref \<Rightarrow> adapter" where
  "graphql_adapter ap =
     \<lparr>constructor_name = ''Object'', axiosInstance = None, apolloClient = Some ap,
      client = None, executeRequest = None\<rparr>"

definition generic_adapter :: "(jsval \<Rightarrow> settled) \<Rightarrow> adapter" where
  "generic_adapter f =
     \<lparr>constructor_name = ''Object'', axiosInstance = None, apolloClient = None,
      client = Some (JObj []), executeRequest = Some f\<rparr>"

text \<open>\<^verbatim>\<open>{ invalidField: 'test' }\<close>, as in the tests.\<close>

definition invalid_adapter :: adapter where
  "invalid_adapter =
     \<lparr>constructor_name = ''Object'', axiosInstance = None, apolloClient = None,
      client = None, executeRequest = None\<rparr>"

text \<open>An object that is a REST adapter and a Generic adapter at once.\<close>

definition rest_and_generic_adapter :: adapter where
  "rest_and_generic_adapter =
     \<lparr>constructor_name = ''Object'', axiosInstance = Some 0, apolloClient = None,
      client = Some (JObj []), executeRequest = Some Inr\<rparr>"

text \<open>Every axios instance with the default headers \<^verbatim>\<open>{ A: '1' }\<close>.\<close>

definition world_A1 :: world where
  "world_A1 =
     \<lparr>connectorRegistry = Map.empty, connectors = [],
      defaults_headers = (\<lambda>ax. [''A'' \<mapsto> Plain (JStr ''1'')]),
      objects = (\<lambda>r. Map.empty)\<rparr>"


definition get_config :: jsval where
  "get_config = JObj [(''url'', JStr ''/test''), (''method'', JStr ''GET'')]"

definition get_config_B2 :: jsval where
  "get_config_B2 =
     JObj [(''url'', JStr ''/test''), (''method'', JStr ''GET''),
           (''headers'', JObj [(''B'', JStr ''2'')])]"

definition not_found_response :: jsval where
  "not_found_response =
     JObj [(''status'', JNum 404), (''data'', JObj [(''error'', JStr ''Not Found'')])]"

text \<open>
  Collaborators that reject every call with the given reason; the transport leaves the
  default headers of its instance empty.
\<close>

definition rejecting_env :: "jsval \<Rightarrow> env" where
  "rejecting_env error =
     \<lparr>axios_request = (\<lambda>ax observed nested args. (Inl error, Map.empty, nested)),
      apollo_query = (\<lambda>ap options. Inl error),
      gql = (\<lambda>source. Inr (JObj [(''kind'', JStr ''Document'')]))\<rparr>"

text \<open>What a transport reads under a header name.\<close>

definition seen :: "header_value option \<Rightarrow> jsval" where
  "seen v = (case v of Some (Plain x) \<Rightarrow> x | _ \<Rightarrow> JUndefined)"

text \<open>
  Collaborators that resolve: the transport answers with the default headers \<^verbatim>\<open>A\<close> and
  \<^verbatim>\<open>B\<close> it saw and leaves the default headers empty; the GraphQL client answers with the
  variables it was given, next to metadata of its own.
\<close>

definition echo_env :: env where
  "echo_env =
     \<lparr>axios_request =
        (\<lambda>ax observed nested args.
           (Inr (JObj [(''data'', JObj [(''A'', seen (observed ''A'')), (''B'', seen (observed ''B''))]),
                       (''status'', JNum 200)]),
            Map.empty, nested)),
      apollo_query =
        (\<lambda>ap options. Inr (JObj [(''data'', field_of options ''variables''),
                                  (''loading'', JBool False), (''networkStatus'', JNum 7)])),
      gql = (\<lambda>source. Inr (JObj [(''kind'', JStr ''Document'')]))\<rparr>"



text \<open>Connectors as the factory makes them for these adapters.\<close>

definition rest_connector :: ApiServiceConnector where
  "rest_connector = \<lparr>adapterClient = rest_adapter 0, protocolType = REST\<rparr>"

definition graphql_connector :: ApiServiceConnector where
  "graphql_connector = \<lparr>adapterClient = graphql_adapter 0, protocolType = GraphQL\<rparr>"

definition generic_connector :: "(jsval \<Rightarrow> settled) \<Rightarrow> ApiServiceConnector" where
  "generic_connector f = \<lparr>adapterClient = generic_adapter f, protocolType = Generic\<rparr>"

text \<open>\<^verbatim>\<open>{ isAxiosError: true, response: { status: 404, data: {...} } }\<close> and
  \<^verbatim>\<open>{ message: 'Network error' }\<close>.\<close>

definition axios_error_404 :: jsval where
  "axios_error_404 = JObj [(''isAxiosError'', JBool True), (''response'', not_found_response)]"





definition generic_config :: jsval where
  "generic_config = JObj [(''operation'', JStr ''test''), (''params'', JObj [(''id'', JNum 1)])]"


definition resolving_executor :: "jsval \<Rightarrow> jsval \<Rightarrow> settled" where
  "resolving_executor response config = Inr response"

text \<open>A session on the connector at address 0.\<close>

definition example_session :: "operation list" where
  "example_session =
     [ApplyAuthenticationToken 0 ''abc'', Request 0 get_config_B2,
      CreateOrRetrieve (graphql_adapter 0), GetGraphQLClient 1]"

section \<open>Properties\<close>

subsection \<open>Auxiliary facts\<close>

lemma detect_protocol_first_match:
  "detect_protocol a =
   (if axiosInstance a \<noteq> None then Some REST
    else if apolloClient a \<noteq> None then Some GraphQL
    else if client a \<noteq> None \<and> executeRequest a \<noteq> None then Some Generic else None)"
  by (simp add: detect_protocol_def PROTOCOL_DETECTORS_def)

lemma executeHttpRequest_frame:
  "connectorRegistry (snd (executeHttpRequest e w adapter config)) = connectorRegistry w
   \<and> connectors (snd (executeHttpRequest e w adapter config)) = connectors w"
  by (simp add: executeHttpRequest_def Let_def split: option.splits prod.splits)

lemma executeHttpRequest_outcome:
  assumes "axiosInstance adapter = Some ax" and "\<not> nullish config"
  shows "fst (executeHttpRequest e w adapter config) =
           (case fst (axios_request e ax
                        (merge_call_headers (defaults_headers w ax) (field_of config ''headers''))
                        (objects w) (axios_request_config config)) of
              Inr response \<Rightarrow> Inr response
            | Inl error \<Rightarrow> http_catch error)"
  using assms by (simp add: executeHttpRequest_def Let_def split: prod.splits)

lemma executeHttpRequest_state:
  assumes "axiosInstance adapter = Some ax" and "\<not> nullish config"
  shows "snd (executeHttpRequest e w adapter config) =
           w\<lparr>objects := snd (snd (axios_request e ax
                        (merge_call_headers (defaults_headers w ax) (field_of config ''headers''))
                        (objects w) (axios_request_config config)))\<rparr>"
  using assms by (simp add: executeHttpRequest_def Let_def split: prod.splits)


lemma request_REST:
  "protocolType this = REST \<Longrightarrow>
     request e w this config = executeHttpRequest e w (adapterClient this) config"
  by (simp add: request_def)


lemma request_Generic:
  "protocolType this = Generic \<Longrightarrow>
     request e w this config = (executeGenericOperation (adapterClient this) config, w)"
  by (simp add: request_def)

lemma request_frame:
  "connectorRegistry (snd (request e w this config)) = connectorRegistry w
   \<and> connectors (snd (request e w this config)) = connectors w"
  by (simp add: request_def executeHttpRequest_frame)

lemma field_of_nullish: "nullish v \<Longrightarrow> field_of v k = JUndefined"
  by (auto simp: nullish_def)










lemma createOrRetrieve_keeps_entry:
  "connectorRegistry w k = Some r \<Longrightarrow> connectorRegistry (snd (createOrRetrieve w a)) k = Some r"
  by (auto simp: createOrRetrieve_def Let_def split: option.splits)

lemma createOrRetrieve_extends:
  "\<exists>cs. connectors (snd (createOrRetrieve w a)) = connectors w @ cs"
  by (auto simp: createOrRetrieve_def Let_def split: option.splits)

lemma applyAuthenticationToken_registry:
  "connectorRegistry (snd (applyAuthenticationToken w c t)) = connectorRegistry w
   \<and> connectors (snd (applyAuthenticationToken w c t)) = connectors w"
  by (simp add: applyAuthenticationToken_def split: option.splits)

lemma perform_keeps_entry:
  "connectorRegistry w k = Some r \<Longrightarrow> connectorRegistry (perform e w x) k = Some r"
  by (cases x) (simp_all add: createOrRetrieve_keeps_entry applyAuthenticationToken_registry
        request_frame split: option.splits)

lemma perform_extends: "\<exists>cs. connectors (perform e w x) = connectors w @ cs"
  by (cases x) (simp_all add: createOrRetrieve_extends applyAuthenticationToken_registry
        request_frame split: option.splits)

lemma perform_keeps_connector:
  assumes "deref w r = Some c"
  shows "deref (perform e w x) r = Some c"
proof -
  obtain cs where "connectors (perform e w x) = connectors w @ cs"
    using perform_extends by blast
  then show ?thesis using assms by (auto simp: deref_def nth_append split: if_splits)
qed

lemma run_keeps:
  "connectorRegistry w k = Some r \<Longrightarrow> deref w r = Some c \<Longrightarrow>
     connectorRegistry (run e w xs) k = Some r \<and> deref (run e w xs) r = Some c"
  unfolding run_def
proof (induction xs arbitrary: w)
  case Nil
  then show ?case by simp
next
  case (Cons x xs)
  from Cons.prems have "connectorRegistry (perform e w x) k = Some r"
    and "deref (perform e w x) r = Some c"
    by (simp_all add: perform_keeps_entry perform_keeps_connector)
  from Cons.IH [OF this] show ?case by simp
qed

subsection \<open>Detection and the registry\<close>

text \<open>
  C1, as stated, fails on an adapter that has \<^verbatim>\<open>client\<close> and \<^verbatim>\<open>executeRequest\<close> and an
  \<^verbatim>\<open>axiosInstance\<close> as well: it has both fields of the Generic shape, and the first
  detector that matches, REST, decides.
\<close>

theorem generic_fields_with_transport_client_detect_REST:
  "client rest_and_generic_adapter \<noteq> None
   \<and> executeRequest rest_and_generic_adapter \<noteq> None
   \<and> detect_protocol rest_and_generic_adapter = Some REST
   \<and> detect_protocol rest_and_generic_adapter \<noteq> Some Generic"
  by (simp add: detect_protocol_first_match rest_and_generic_adapter_def)

text \<open>
  C1, amended: detection yields REST when the adapter has \<^verbatim>\<open>axiosInstance\<close> (so also
  when it has only that field); GraphQL when it has \<^verbatim>\<open>apolloClient\<close> and no
  \<^verbatim>\<open>axiosInstance\<close>; Generic when it has both \<^verbatim>\<open>client\<close> and \<^verbatim>\<open>executeRequest\<close> and
  neither of the other two; and when no detector matches, \<^verbatim>\<open>createOrRetrieve\<close> throws the
  unrecognized-adapter Error and the registry and the connectors are as before.
\<close>

theorem detection_by_shape:
  "(axiosInstance a \<noteq> None \<longrightarrow> detect_protocol a = Some REST)
   \<and> (apolloClient a \<noteq> None \<and> axiosInstance a = None \<longrightarrow> detect_protocol a = Some GraphQL)
   \<and> (client a \<noteq> None \<and> executeRequest a \<noteq> None \<and> axiosInstance a = None \<and> apolloClient a = None
        \<longrightarrow> detect_protocol a = Some Generic)
   \<and> (axiosInstance a = None \<and> apolloClient a = None
        \<and> \<not> (client a \<noteq> None \<and> executeRequest a \<noteq> None)
        \<longrightarrow> detect_protocol a = None
            \<and> createOrRetrieve w a = (Inl (Throw (JError unrecognized_adapter_message)), w))"
  by (simp add: detect_protocol_first_match createOrRetrieve_def)

theorem detection_by_shape_witness:
  "detect_protocol (rest_adapter 0) = Some REST
   \<and> detect_protocol (graphql_adapter 0) = Some GraphQL
   \<and> detect_protocol (generic_adapter Inr) = Some Generic
   \<and> createOrRetrieve empty_world invalid_adapter
       = (Inl (Throw (JError unrecognized_adapter_message)), empty_world)"
  using detection_by_shape [of "rest_adapter 0" empty_world]
        detection_by_shape [of "graphql_adapter 0" empty_world]
        detection_by_shape [of "generic_adapter Inr" empty_world]
        detection_by_shape [of invalid_adapter empty_world]
  by (simp add: rest_adapter_def graphql_adapter_def generic_adapter_def invalid_adapter_def)

text \<open>
  C9: when detection fails, \<^verbatim>\<open>createOrRetrieve\<close> throws and the state, the registry
  included, is exactly what it was.
\<close>

theorem failed_detection_leaves_registry:
  "detect_protocol a = None \<Longrightarrow>
     createOrRetrieve w a = (Inl (Throw (JError unrecognized_adapter_message)), w)"
  by (simp add: createOrRetrieve_def)

theorem failed_detection_leaves_registry_witness:
  "detect_protocol invalid_adapter = None
   \<and> createOrRetrieve empty_world invalid_adapter
       = (Inl (Throw (JError unrecognized_adapter_message)), empty_world)"
proof -
  have d: "detect_protocol invalid_adapter = None"
    by (simp add: detect_protocol_first_match invalid_adapter_def)
  from failed_detection_leaves_registry [OF d, of empty_world] d show ?thesis by simp
qed



subsection \<open>The REST strategy\<close>

text \<open>
  C3: when the transport call of a REST request rejects with a reason whose
  \<^verbatim>\<open>isAxiosError\<close> is truthy and that carries a response, \<^verbatim>\<open>request\<close> resolves to that
  response as it is (and the default headers of the instance are the ones from before
  the call).
\<close>

theorem structured_error_response_is_returned:
  assumes "protocolType this = REST" and "axiosInstance (adapterClient this) = Some ax"
    and "\<not> nullish config"
    and "fst (axios_request e ax
                (merge_call_headers (defaults_headers w ax) (field_of config ''headers''))
                (objects w) (axios_request_config config)) = Inl error"
    and "truthy (field_of error ''isAxiosError'')"
    and "field_of error ''response'' = response" and "truthy response"
  shows "fst (request e w this config) = Inr response
         \<and> defaults_headers (snd (request e w this config)) ax = defaults_headers w ax"
proof -
  have n: "\<not> nullish error" using assms(5) by (auto simp: nullish_def)
  have "fst (executeHttpRequest e w (adapterClient this) config) = http_catch error"
    using executeHttpRequest_outcome [OF assms(2,3), of e w] assms(4) by simp
  also have "\<dots> = Inr response" using n assms(5,6,7) by (simp add: http_catch_def)
  finally have "fst (executeHttpRequest e w (adapterClient this) config) = Inr response" .
  moreover have "defaults_headers (snd (executeHttpRequest e w (adapterClient this) config)) ax
                   = defaults_headers w ax"
    by (simp add: executeHttpRequest_state [OF assms(2,3)])
  ultimately show ?thesis using assms(1) by (simp add: request_REST)
qed

theorem structured_error_response_is_returned_witness:
  "fst (request (rejecting_env axios_error_404) world_A1 rest_connector get_config)
     = Inr not_found_response
   \<and> defaults_headers (snd (request (rejecting_env axios_error_404) world_A1 rest_connector get_config)) 0
     = defaults_headers world_A1 0"
  by (rule structured_error_response_is_returned [where error = axios_error_404])
     (simp_all add: rest_connector_def rest_adapter_def get_config_def nullish_def
        rejecting_env_def axios_error_404_def not_found_response_def)



subsection \<open>The authentication token\<close>

text \<open>
  C5: on a REST connector \<^verbatim>\<open>applyAuthenticationToken(t)\<close> sets the \<^verbatim>\<open>authorization\<close>
  default header of the transport client to \<^verbatim>\<open>Bearer \<close> followed by \<^verbatim>\<open>t\<close>; on a
  connector of another protocol it throws the token-is-for-REST-only Error and the state
  is untouched.
\<close>

theorem bearer_token_only_on_REST:
  "(protocolType this = REST \<and> axiosInstance (adapterClient this) = Some ax \<longrightarrow>
      (\<exists>w'. applyAuthenticationToken w this accessToken = (Inr (), w')
           \<and> defaults_headers w' ax ''authorization''
               = Some (Plain (JStr (''Bearer '' @ accessToken)))))
   \<and> (protocolType this \<noteq> REST \<longrightarrow>
        applyAuthenticationToken w this accessToken = (Inl (Throw (JError token_rest_only_message)), w))"
  by (simp add: applyAuthenticationToken_def)

theorem bearer_token_only_on_REST_witness:
  "(\<exists>w'. applyAuthenticationToken world_A1 rest_connector ''abc'' = (Inr (), w')
        \<and> defaults_headers w' 0 ''authorization'' = Some (Plain (JStr ''Bearer abc'')))
   \<and> applyAuthenticationToken world_A1 graphql_connector ''abc''
        = (Inl (Throw (JError token_rest_only_message)), world_A1)
   \<and> applyAuthenticationToken world_A1 (generic_connector Inr) ''abc''
        = (Inl (Throw (JError token_rest_only_message)), world_A1)"
  using bearer_token_only_on_REST [of rest_connector 0 world_A1 "''abc''"]
        bearer_token_only_on_REST [of graphql_connector 0 world_A1 "''abc''"]
        bearer_token_only_on_REST [of "generic_connector Inr" 0 world_A1 "''abc''"]
  by (simp add: rest_connector_def graphql_connector_def generic_connector_def rest_adapter_def)

subsection \<open>Wrapped failures\<close>




subsection \<open>The GraphQL and Generic strategies\<close>



text \<open>
  C8: a Generic request hands its configuration as it is to \<^verbatim>\<open>executeRequest\<close> of the
  adapter, and what that resolves to is what the request resolves to, unwrapped.
\<close>

theorem generic_request_is_pass_through:
  assumes "protocolType this = Generic" and "executeRequest (adapterClient this) = Some f"
  shows "request e w this config
           = ((case f config of
                 Inr response \<Rightarrow> Inr response
               | Inl error \<Rightarrow> Inl (wrap_error generic_failure_prefix error)), w)
         \<and> (\<forall>response. f config = Inr response \<longrightarrow> request e w this config = (Inr response, w))"
  using assms by (simp add: request_Generic executeGenericOperation_def)

theorem generic_request_is_pass_through_witness:
  "request echo_env world_A1 (generic_connector Inr) generic_config = (Inr generic_config, world_A1)
   \<and> request echo_env world_A1 (generic_connector (resolving_executor (JStr ''success''))) generic_config
       = (Inr (JStr ''success''), world_A1)"
  using generic_request_is_pass_through [of "generic_connector Inr" Inr echo_env world_A1 generic_config]
        generic_request_is_pass_through
          [of "generic_connector (resolving_executor (JStr ''success''))"
              "resolving_executor (JStr ''success'')"
              echo_env world_A1 generic_config]
  by (simp add: generic_connector_def generic_adapter_def resolving_executor_def)

subsection \<open>The adapter a connector holds\<close>

text \<open>
  C10: once a call of \<^verbatim>\<open>createOrRetrieve\<close> has created the entry of a key, then after any
  sequence of factory calls, token applications, client retrievals and requests, a call
  with any adapter of the same constructor name and protocol returns that same connector
  and changes nothing, and the connector still holds the adapter of the creating call:
  the later adapter is neither stored nor used.
\<close>

theorem connector_keeps_first_adapter:
  assumes "detect_protocol a1 = Some p" and "connectorRegistry w (registryKey a1 p) = None"
    and "createOrRetrieve w a1 = (Inr r, w1)"
    and "detect_protocol a2 = Some p" and "constructor_name a2 = constructor_name a1"
  shows "createOrRetrieve (run e w1 xs) a2 = (Inr r, run e w1 xs)
         \<and> deref (run e w1 xs) r = Some \<lparr>adapterClient = a1, protocolType = p\<rparr>"
proof -
  have k: "registryKey a2 p = registryKey a1 p"
    using assms(5) by (simp add: registryKey_def)
  from assms(1,2,3) have r: "r = length (connectors w)"
    and w1: "w1 = w\<lparr>connectorRegistry := (connectorRegistry w)(registryKey a1 p \<mapsto> r),
                    connectors := connectors w @ [\<lparr>adapterClient = a1, protocolType = p\<rparr>]\<rparr>"
    by (auto simp: createOrRetrieve_def)
  have "connectorRegistry w1 (registryKey a1 p) = Some r"
    and "deref w1 r = Some \<lparr>adapterClient = a1, protocolType = p\<rparr>"
    by (simp_all add: w1 r deref_def)
  from run_keeps [OF this, of e xs]
  have reg: "connectorRegistry (run e w1 xs) (registryKey a1 p) = Some r"
    and held: "deref (run e w1 xs) r = Some \<lparr>adapterClient = a1, protocolType = p\<rparr>"
    by simp_all
  have "createOrRetrieve (run e w1 xs) a2 = (Inr r, run e w1 xs)"
    using assms(4) k reg by (simp add: createOrRetrieve_def)
  with held show ?thesis by simp
qed

theorem connector_keeps_first_adapter_witness:
  "rest_adapter 1 \<noteq> rest_adapter 0
   \<and> createOrRetrieve (run echo_env (snd (createOrRetrieve empty_world (rest_adapter 0))) example_session)
         (rest_adapter 1)
       = (Inr 0, run echo_env (snd (createOrRetrieve empty_world (rest_adapter 0))) example_session)
   \<and> deref (run echo_env (snd (createOrRetrieve empty_world (rest_adapter 0))) example_session) 0
       = Some \<lparr>adapterClient = rest_adapter 0, protocolType = REST\<rparr>"
proof -
  let ?w1 = "snd (createOrRetrieve empty_world (rest_adapter 0))"
  have d0: "detect_protocol (rest_adapter 0) = Some REST"
    and d1: "detect_protocol (rest_adapter 1) = Some REST"
    and n: "constructor_name (rest_adapter 1) = constructor_name (rest_adapter 0)"
    by (simp_all add: detect_protocol_first_match rest_adapter_def)
  have fresh: "connectorRegistry empty_world (registryKey (rest_adapter 0) REST) = None"
    by (simp add: empty_world_def)
  have c: "createOrRetrieve empty_world (rest_adapter 0) = (Inr 0, ?w1)"
    using d0 fresh by (simp add: createOrRetrieve_def empty_world_def)
  have ne: "rest_adapter 1 \<noteq> rest_adapter 0" by (simp add: rest_adapter_def)
  from connector_keeps_first_adapter [OF d0 fresh c d1 n, of echo_env example_session] ne
  show ?thesis by simp
qed


end
